theory Spec2Isabelle
  imports Main
begin

section \<open>The Uber client of uberpy (uber.py)\<close>

text \<open>
  The class \<open>Uber\<close> of \<open>uber.py\<close> derives from a base class \<open>Api\<close> (module \<open>api\<close>).
  Every method of \<open>Uber\<close> assembles a dictionary of query parameters and ends in one call
  of the base class, whose result it returns: \<open>self.get_json(...)\<close> for the HTTP
  operations and \<open>Api.build_request(self, ...)\<close> for the authorize URL.  The module
  \<open>api\<close> is not part of the sources at hand, so the model stops at that boundary: a
  method yields the base-class call it makes, as data, together with the object as the
  method's own statements leave it.  The base class enters as a parameter where a
  statement needs it (\<open>dispatch\<close> below); what the specification says of it is
  written down as conditions on that parameter.
\<close>

subsection \<open>Values, dictionaries, the object\<close>

text \<open>
  Python values: \<open>None\<close>, a string, or any other object (the coordinates are numbers of
  whatever kind the caller passes; the client never inspects them).
\<close>

datatype 'a pyval = PNone | PStr string | PObj 'a

text \<open>A dictionary with string keys: keys are unique and their order carries no meaning.\<close>

type_synonym 'a params = "string \<rightharpoonup> 'a pyval"

text \<open>
  The instance attributes that \<open>__init__\<close> assigns.  The record is extensible: whatever
  further attributes the base class keeps on the object live in its \<open>more\<close> part.
\<close>

record 'a uber =
  client_id :: "'a pyval"
  server_token :: "'a pyval"
  secret :: "'a pyval"
  redirect_uri :: "'a pyval"

text \<open>
  A call of the base class.  \<open>Get_json endpoint method query_parameters a4 a5 authorisation\<close>
  is \<open>self.get_json(endpoint, method, query_parameters, a4, a5[, authorisation=...])\<close>;
  \<open>Build_request path query_parameters authorisation\<close> is
  \<open>Api.build_request(self, path, query_parameters[, authorisation=...])\<close>;
  \<open>Api_init\<close> is \<open>super(Uber, self).__init__(...)\<close>.
  The keyword argument \<open>authorisation\<close> is \<open>None\<close> when the call does not pass it
  (its default is the base class's business) and \<open>Some b\<close> when the call passes \<open>b\<close>.
\<close>

datatype 'a api_call =
    Get_json (endpoint: string) (http_method: string) (query_parameters: "'a params")
      (arg4: "'a pyval") (arg5: "'a pyval") (authorisation: "bool option")
  | Build_request (endpoint: string) (query_parameters: "'a params")
      (authorisation: "bool option")
  | Api_init "'a pyval" "'a pyval" "'a pyval" "'a pyval"

text \<open>
  The base class as a parameter: one function per method of \<open>Api\<close> that \<open>Uber\<close> calls.
  Each receives the object first, as the Python method receives \<open>self\<close>.
\<close>

record ('s, 'a, 'r) api =
  get_json :: "'s \<Rightarrow> string \<Rightarrow> string \<Rightarrow> 'a params \<Rightarrow> 'a pyval \<Rightarrow> 'a pyval \<Rightarrow> bool option \<Rightarrow> 'r"
  build_request :: "'s \<Rightarrow> string \<Rightarrow> 'a params \<Rightarrow> bool option \<Rightarrow> 'r"
  api_init :: "'s \<Rightarrow> 'a pyval \<Rightarrow> 'a pyval \<Rightarrow> 'a pyval \<Rightarrow> 'a pyval \<Rightarrow> 'r"

fun dispatch :: "('s, 'a, 'r) api \<Rightarrow> 's \<Rightarrow> 'a api_call \<Rightarrow> 'r" where
  "dispatch base self (Get_json e m q a b auth) = get_json base self e m q a b auth"
| "dispatch base self (Build_request p q auth) = build_request base self p q auth"
| "dispatch base self (Api_init a b c d) = api_init base self a b c d"

text \<open>Python's \<open>sep.join(xs)\<close> on a list of strings.\<close>

fun join :: "string \<Rightarrow> string list \<Rightarrow> string" where
  "join sep [] = []"
| "join sep [x] = x"
| "join sep (x # y # ys) = x @ sep @ join sep (y # ys)"

text \<open>
  A parameter with a default value other than \<open>None\<close>: \<open>None\<close> is the omitted argument,
  which takes the default of the signature.
\<close>

fun arg_or :: "'b \<Rightarrow> 'b option \<Rightarrow> 'b" where
  "arg_or d None = d"
| "arg_or d (Some v) = v"

subsection \<open>The methods of \<open>Uber\<close>\<close>

text \<open>
  \<open>__init__\<close> assigns the four attributes and hands the same four values to the
  initialiser of the base class.
\<close>

definition init ::
  "'a pyval \<Rightarrow> 'a pyval \<Rightarrow> 'a pyval \<Rightarrow> 'a pyval \<Rightarrow> 'a api_call \<times> 'a uber" where
  "init cid token sec uri =
     (let self = \<lparr>client_id = cid, server_token = token, secret = sec, redirect_uri = uri\<rparr>
      in (Api_init (client_id self) (server_token self) (secret self) (redirect_uri self),
          self))"

definition get_products ::
  "('a, 'z) uber_scheme \<Rightarrow> 'a pyval \<Rightarrow> 'a pyval \<Rightarrow> 'a api_call \<times> ('a, 'z) uber_scheme" where
  "get_products self latitude longitude =
     (let endpoint = ''products'';
          query_parameters = [''latitude'' \<mapsto> latitude, ''longitude'' \<mapsto> longitude]
      in (Get_json endpoint ''GET'' query_parameters PNone PNone None, self))"

definition get_price_estimate ::
  "('a, 'z) uber_scheme \<Rightarrow> 'a pyval \<Rightarrow> 'a pyval \<Rightarrow> 'a pyval \<Rightarrow> 'a pyval
     \<Rightarrow> 'a api_call \<times> ('a, 'z) uber_scheme" where
  "get_price_estimate self start_latitude start_longitude end_latitude end_longitude =
     (let endpoint = ''estimates/price'';
          query_parameters =
            [''start_latitude'' \<mapsto> start_latitude, ''start_longitude'' \<mapsto> start_longitude,
             ''end_latitude'' \<mapsto> end_latitude, ''end_longitude'' \<mapsto> end_longitude]
      in (Get_json endpoint ''GET'' query_parameters PNone PNone None, self))"

text \<open>
  \<open>get_time_estimate\<close>: the parameters \<open>customer_uuid\<close> and \<open>product_id\<close> default to
  \<open>None\<close>, so an omitted argument is \<open>PNone\<close>.  The \<open>if\<close>/\<open>elif\<close>/\<open>elif\<close> chain is kept in
  two steps: which branch fires (the guards in the source's order), then the body of
  that branch.
\<close>

datatype branch = First | Second | Third | No_branch

definition time_estimate_branch :: "'a pyval \<Rightarrow> 'a pyval \<Rightarrow> branch" where
  "time_estimate_branch customer_uuid product_id =
     (if customer_uuid \<noteq> PNone then First
      else if product_id \<noteq> PNone then Second
      else if customer_uuid \<noteq> PNone \<and> product_id \<noteq> PNone then Third
      else No_branch)"

definition get_time_estimate ::
  "('a, 'z) uber_scheme \<Rightarrow> 'a pyval \<Rightarrow> 'a pyval \<Rightarrow> 'a pyval \<Rightarrow> 'a pyval
     \<Rightarrow> 'a api_call \<times> ('a, 'z) uber_scheme" where
  "get_time_estimate self start_latitude start_longitude customer_uuid product_id =
     (let endpoint = ''estimates/time'';
          query_parameters =
            [''start_latitude'' \<mapsto> start_latitude, ''start_longitude'' \<mapsto> start_longitude];
          query_parameters =
            (case time_estimate_branch customer_uuid product_id of
               First \<Rightarrow> query_parameters(''customer_uuid'' \<mapsto> customer_uuid)
             | Second \<Rightarrow> query_parameters(''product_id'' \<mapsto> product_id)
             | Third \<Rightarrow> query_parameters(''customer_uuid'' \<mapsto> customer_uuid,
                                         ''product_id'' \<mapsto> product_id)
             | No_branch \<Rightarrow> query_parameters)
      in (Get_json endpoint ''GET'' query_parameters PNone PNone None, self))"

definition get_promotions ::
  "('a, 'z) uber_scheme \<Rightarrow> 'a pyval \<Rightarrow> 'a pyval \<Rightarrow> 'a pyval \<Rightarrow> 'a pyval
     \<Rightarrow> 'a api_call \<times> ('a, 'z) uber_scheme" where
  "get_promotions self start_latitude start_longitude end_latitude end_longitude =
     (let endpoint = ''promotions'';
          query_parameters =
            [''start_latitude'' \<mapsto> start_latitude, ''start_longitude'' \<mapsto> start_longitude,
             ''end_latitude'' \<mapsto> end_latitude, ''end_longitude'' \<mapsto> end_longitude]
      in (Get_json endpoint ''GET'' query_parameters PNone PNone None, self))"

text \<open>
  \<open>get_authorize_url(self, scopes=[], state=None, response_type='code')\<close>.  \<open>scopes\<close> is
  a list of strings (\<open>','.join\<close> accepts nothing else) and \<open>response_type\<close> any value;
  both are options here, \<open>None\<close> being the omitted argument.  \<open>state\<close> defaults to
  \<open>None\<close>, so an omitted \<open>state\<close> is \<open>PNone\<close>.  The body never mentions \<open>state\<close>.
\<close>

definition get_authorize_url ::
  "('a, 'z) uber_scheme \<Rightarrow> string list option \<Rightarrow> 'a pyval \<Rightarrow> 'a pyval option
     \<Rightarrow> 'a api_call \<times> ('a, 'z) uber_scheme" where
  "get_authorize_url self scopes state response_type =
     (let path = ''authorize'';
          query_parameters =
            [''client_id'' \<mapsto> client_id self,
             ''response_type'' \<mapsto> arg_or (PStr ''code'') response_type,
             ''scopes'' \<mapsto> PStr (join '','' (arg_or [] scopes))]
      in (Build_request path query_parameters (Some True), self))"

definition get_access_token ::
  "('a, 'z) uber_scheme \<Rightarrow> 'a pyval \<Rightarrow> 'a api_call \<times> ('a, 'z) uber_scheme" where
  "get_access_token self code =
     (let endpoint = ''token'';
          query_parameters =
            [''client_id'' \<mapsto> client_id self,
             ''client_secret'' \<mapsto> secret self,
             ''grant_type'' \<mapsto> PStr ''authorization_code'',
             ''redirect_uri'' \<mapsto> redirect_uri self,
             ''code'' \<mapsto> code]
      in (Get_json endpoint ''POST'' query_parameters PNone PNone (Some True), self))"

definition refresh_token ::
  "('a, 'z) uber_scheme \<Rightarrow> 'a pyval \<Rightarrow> 'a api_call \<times> ('a, 'z) uber_scheme" where
  "refresh_token self refresh_token_arg =
     (let endpoint = ''token'';
          query_parameters =
            [''client_id'' \<mapsto> client_id self,
             ''client_secret'' \<mapsto> secret self,
             ''grant_type'' \<mapsto> PStr ''authorization_code'',
             ''redirect_uri'' \<mapsto> redirect_uri self,
             ''refresh_token'' \<mapsto> refresh_token_arg]
      in (Get_json endpoint ''POST'' query_parameters PNone PNone (Some True), self))"

definition revoke_token ::
  "('a, 'z) uber_scheme \<Rightarrow> 'a pyval \<Rightarrow> 'a api_call \<times> ('a, 'z) uber_scheme" where
  "revoke_token self token =
     (let endpoint = ''revoke'';
          query_parameters =
            [''client_id'' \<mapsto> client_id self,
             ''client_secret'' \<mapsto> secret self,
             ''token'' \<mapsto> token]
      in (Get_json endpoint ''POST'' query_parameters PNone PNone (Some True), self))"

subsection \<open>An operation as a whole\<close>

text \<open>
  Every method body ends in \<open>return <base-class call>\<close>: the operation as a whole is
  the method's own statements followed by that call on the object they leave, and what
  the call yields is what the operation yields.
\<close>

definition perform :: "('s, 'a, 'r) api \<Rightarrow> 'a api_call \<times> 's \<Rightarrow> 'r" where
  "perform base m = dispatch base (snd m) (fst m)"



text \<open>Two objects with the same configuration: the four fields agree.\<close>

definition same_config :: "('a, 'z) uber_scheme \<Rightarrow> ('a, 'y) uber_scheme \<Rightarrow> bool" where
  "same_config s t =
     (client_id s = client_id t \<and> server_token s = server_token t
      \<and> secret s = secret t \<and> redirect_uri s = redirect_uri t)"

subsection \<open>The base class as the specification describes it\<close>

text \<open>
  Modelled from the spec: the module \<open>api\<close> (class \<open>Api\<close> with \<open>__init__\<close>, \<open>get_json\<close>
  and \<open>build_request\<close>) is missing.  What a call of one of its methods yields, as far
  as the specification speaks of it: the value it returns (the decoded JSON \<open>ApiResult\<close>
  of \<open>get_json\<close>, the URL of \<open>build_request\<close>), the object as the call leaves it (the
  method receives \<open>self\<close>), and the requests it handed to the HTTP Transport, in order
  (section 6: \<open>request(method, url, query_parameters, headers)\<close>).
\<close>

record ('v, 's, 'q) outcome =
  returned :: 'v
  self_after :: 's
  requests_sent :: "'q list"



text \<open>
  Modelled from the spec: the module \<open>api\<close> is missing.  Section 4.2: the Request
  Builder produces the fully formed request and is a ``Pure function; no I/O''.  So
  \<open>build_request\<close> hands no request to the Transport.
\<close>

definition build_request_no_io :: "('s, 'a, ('v, 't, 'q) outcome) api \<Rightarrow> bool" where
  "build_request_no_io base =
     (\<forall>self p q auth. requests_sent (build_request base self p q auth) = [])"

text \<open>
  Modelled from the spec: the module \<open>api\<close> is missing.  Section 2 gives the control
  flow of an HTTP operation as Client Facade method, parameter assembly, Request Builder,
  Transport, JSON result; section 4.1: ``the Facade does not retry''; section 8:
  ``issues exactly one GET''.  So \<open>get_json\<close> hands exactly one request to the
  Transport.
\<close>

definition get_json_one_request :: "('s, 'a, ('v, 't, 'q) outcome) api \<Rightarrow> bool" where
  "get_json_one_request base =
     (\<forall>self e m q a b auth. length (requests_sent (get_json base self e m q a b auth)) = 1)"


section \<open>Properties\<close>

subsection \<open>Auxiliary facts\<close>



lemma same_config_sym: "same_config s t \<Longrightarrow> same_config t s"
  by (simp add: same_config_def)








text \<open>
  C1. \<open>get_time_estimate\<close> called with both \<open>customer_uuid\<close> and \<open>product_id\<close>
  supplied, on a client built by \<open>__init__\<close>: the query parameters of the call to
  \<open>estimates/time\<close> bind \<open>customer_uuid\<close> but have no key \<open>product_id\<close>; their keys
  are \<open>start_latitude\<close>, \<open>start_longitude\<close> and \<open>customer_uuid\<close> only.  With both
  supplied the code does not include both, although its third branch is written to.
\<close>

theorem get_time_estimate_both_supplied:
  "query_parameters (fst (get_time_estimate
        (snd (init (PStr ''id'') (PStr ''tok'') (PStr ''sec'') (PStr ''uri'')))
        (PObj (37::int)) (PObj (-122)) (PStr ''c'') (PStr ''p''))) ''customer_uuid''
     = Some (PStr ''c'')
   \<and> query_parameters (fst (get_time_estimate
        (snd (init (PStr ''id'') (PStr ''tok'') (PStr ''sec'') (PStr ''uri'')))
        (PObj (37::int)) (PObj (-122)) (PStr ''c'') (PStr ''p''))) ''product_id''
     = None
   \<and> dom (query_parameters (fst (get_time_estimate
        (snd (init (PStr ''id'') (PStr ''tok'') (PStr ''sec'') (PStr ''uri'')))
        (PObj (37::int)) (PObj (-122)) (PStr ''c'') (PStr ''p''))))
     = {''start_latitude'', ''start_longitude'', ''customer_uuid''}"
  by (auto simp: get_time_estimate_def time_estimate_branch_def)

text \<open>
  C2. In \<open>get_time_estimate\<close> the third branch of the conditional chain fires for no
  input.  Whenever \<open>customer_uuid\<close> and \<open>product_id\<close> are both not \<open>None\<close> the first
  branch fires: the query parameters bind \<open>customer_uuid\<close> and have no key
  \<open>product_id\<close>.
\<close>

theorem third_branch_unreachable:
  fixes self :: "('a, 'z) uber_scheme"
  shows "time_estimate_branch customer_uuid product_id \<noteq> Third
    \<and> (customer_uuid \<noteq> PNone \<and> product_id \<noteq> PNone \<longrightarrow>
         time_estimate_branch customer_uuid product_id = First
       \<and> query_parameters (fst (get_time_estimate self start_latitude start_longitude
            customer_uuid product_id)) ''customer_uuid'' = Some customer_uuid
       \<and> query_parameters (fst (get_time_estimate self start_latitude start_longitude
            customer_uuid product_id)) ''product_id'' = None)"
  by (simp add: get_time_estimate_def time_estimate_branch_def)

text \<open>The statement of C2 at \<open>customer_uuid = 'c'\<close>, \<open>product_id = 'p'\<close>.\<close>

theorem third_branch_unreachable_witness:
  "time_estimate_branch (PStr ''c'' :: int pyval) (PStr ''p'') = First
   \<and> query_parameters (fst (get_time_estimate
        (snd (init (PStr ''id'') (PStr ''tok'') (PStr ''sec'') (PStr ''uri'')))
        (PObj (37::int)) (PObj (-122)) (PStr ''c'') (PStr ''p''))) ''product_id'' = None"
  using third_branch_unreachable [of "PStr ''c''" "PStr ''p''"
      "snd (init (PStr ''id'') (PStr ''tok'') (PStr ''sec'') (PStr ''uri''))"
      "PObj (37::int)" "PObj (-122)"]
  by simp

text \<open>
  C3. For every argument, \<open>refresh_token\<close> makes one call, a \<open>get_json\<close> with method
  POST on the endpoint \<open>token\<close> with \<open>authorisation=True\<close>; the keys of its query
  parameters are exactly \<open>client_id\<close>, \<open>client_secret\<close>, \<open>grant_type\<close>,
  \<open>redirect_uri\<close> and \<open>refresh_token\<close>, bound to the stored configuration and the
  argument; \<open>grant_type\<close> is the constant \<open>authorization_code\<close>, the very value that
  \<open>get_access_token\<close> sends.
\<close>

theorem refresh_token_request:
  fixes self :: "('a, 'z) uber_scheme"
  shows "is_Get_json (fst (refresh_token self tok))
    \<and> endpoint (fst (refresh_token self tok)) = ''token''
    \<and> http_method (fst (refresh_token self tok)) = ''POST''
    \<and> authorisation (fst (refresh_token self tok)) = Some True
    \<and> dom (query_parameters (fst (refresh_token self tok)))
        = {''client_id'', ''client_secret'', ''grant_type'', ''redirect_uri'',
           ''refresh_token''}
    \<and> query_parameters (fst (refresh_token self tok)) ''client_id'' = Some (client_id self)
    \<and> query_parameters (fst (refresh_token self tok)) ''client_secret'' = Some (secret self)
    \<and> query_parameters (fst (refresh_token self tok)) ''redirect_uri''
        = Some (redirect_uri self)
    \<and> query_parameters (fst (refresh_token self tok)) ''refresh_token'' = Some tok
    \<and> query_parameters (fst (refresh_token self tok)) ''grant_type''
        = Some (PStr ''authorization_code'')
    \<and> query_parameters (fst (refresh_token self tok)) ''grant_type''
        = query_parameters (fst (get_access_token self code)) ''grant_type''"
  by (auto simp: refresh_token_def get_access_token_def)

text \<open>
  C4. For every \<open>code\<close>, \<open>get_access_token\<close> makes one call, a \<open>get_json\<close> with
  method POST on the endpoint \<open>token\<close> with \<open>authorisation=True\<close>; the keys of its
  query parameters are exactly \<open>client_id\<close>, \<open>client_secret\<close>, \<open>grant_type\<close>,
  \<open>redirect_uri\<close> and \<open>code\<close>, where \<open>client_id\<close>, \<open>client_secret\<close> and
  \<open>redirect_uri\<close> come from the stored configuration, \<open>grant_type\<close> is
  \<open>authorization_code\<close> and \<open>code\<close> is the argument.
\<close>

theorem get_access_token_request:
  fixes self :: "('a, 'z) uber_scheme"
  shows "is_Get_json (fst (get_access_token self code))
    \<and> endpoint (fst (get_access_token self code)) = ''token''
    \<and> http_method (fst (get_access_token self code)) = ''POST''
    \<and> authorisation (fst (get_access_token self code)) = Some True
    \<and> dom (query_parameters (fst (get_access_token self code)))
        = {''client_id'', ''client_secret'', ''grant_type'', ''redirect_uri'', ''code''}
    \<and> query_parameters (fst (get_access_token self code)) ''client_id''
        = Some (client_id self)
    \<and> query_parameters (fst (get_access_token self code)) ''client_secret''
        = Some (secret self)
    \<and> query_parameters (fst (get_access_token self code)) ''grant_type''
        = Some (PStr ''authorization_code'')
    \<and> query_parameters (fst (get_access_token self code)) ''redirect_uri''
        = Some (redirect_uri self)
    \<and> query_parameters (fst (get_access_token self code)) ''code'' = Some code"
  by (auto simp: get_access_token_def)

text \<open>
  C5. \<open>get_authorize_url(scopes=['profile', 'history'], state='xyz')\<close> on a client
  built by \<open>__init__\<close>: the query parameters handed to \<open>build_request\<close> have the keys
  \<open>client_id\<close>, \<open>response_type\<close> and \<open>scopes\<close> only, \<open>scopes\<close> being the comma-joined
  list; there is no key \<open>state\<close> although a state was supplied, and the call is the one
  that the same arguments without a state produce.  So a state parameter is not included
  when state is supplied, although the docstring describes \<open>state\<close> as the nonce to
  append to the OAuth callback.
\<close>

theorem get_authorize_url_drops_state:
  "query_parameters (fst (get_authorize_url
        (snd (init (PStr ''id'') (PStr ''tok'') (PStr ''sec'') (PStr ''uri'' :: int pyval)))
        (Some [''profile'', ''history'']) (PStr ''xyz'') None)) ''state'' = None
   \<and> dom (query_parameters (fst (get_authorize_url
        (snd (init (PStr ''id'') (PStr ''tok'') (PStr ''sec'') (PStr ''uri'' :: int pyval)))
        (Some [''profile'', ''history'']) (PStr ''xyz'') None)))
     = {''client_id'', ''response_type'', ''scopes''}
   \<and> query_parameters (fst (get_authorize_url
        (snd (init (PStr ''id'') (PStr ''tok'') (PStr ''sec'') (PStr ''uri'' :: int pyval)))
        (Some [''profile'', ''history'']) (PStr ''xyz'') None)) ''scopes''
     = Some (PStr ''profile,history'')
   \<and> fst (get_authorize_url
        (snd (init (PStr ''id'') (PStr ''tok'') (PStr ''sec'') (PStr ''uri'' :: int pyval)))
        (Some [''profile'', ''history'']) (PStr ''xyz'') None)
     = fst (get_authorize_url
        (snd (init (PStr ''id'') (PStr ''tok'') (PStr ''sec'') (PStr ''uri'' :: int pyval)))
        (Some [''profile'', ''history'']) PNone None)"
  by (auto simp: get_authorize_url_def init_def)

text \<open>
  C6. For all latitude and longitude arguments, \<open>get_products\<close> makes one call, a
  \<open>get_json\<close> with method GET on the endpoint \<open>products\<close>; the keys of its query
  parameters are exactly \<open>latitude\<close> and \<open>longitude\<close>, bound to the two arguments, and
  the call passes no \<open>authorisation\<close> argument.
\<close>

theorem get_products_request:
  fixes self :: "('a, 'z) uber_scheme"
  shows "is_Get_json (fst (get_products self latitude longitude))
    \<and> endpoint (fst (get_products self latitude longitude)) = ''products''
    \<and> http_method (fst (get_products self latitude longitude)) = ''GET''
    \<and> dom (query_parameters (fst (get_products self latitude longitude)))
        = {''latitude'', ''longitude''}
    \<and> query_parameters (fst (get_products self latitude longitude)) ''latitude''
        = Some latitude
    \<and> query_parameters (fst (get_products self latitude longitude)) ''longitude''
        = Some longitude
    \<and> authorisation (fst (get_products self latitude longitude)) = None"
  by (auto simp: get_products_def)



text \<open>
  C8. For every input the one call of \<open>get_authorize_url\<close> is
  \<open>Api.build_request(self, 'authorize', query_parameters, authorisation=True)\<close> and not
  a \<open>get_json\<close>, and what that call yields is what the operation yields.  With the
  request builder doing no I/O, as the specification says of it, \<open>get_authorize_url\<close>
  hands no request to the HTTP Transport, whatever its arguments.  Each of the seven other
  operations calls \<open>get_json\<close>, the path that sends one request to the Transport.
\<close>

theorem get_authorize_url_no_http_call:
  fixes self :: "('a, 'z) uber_scheme"
    and base :: "(('a, 'z) uber_scheme, 'a, ('v, 't, 'q) outcome) api"
  assumes "build_request_no_io base" and "get_json_one_request base"
  shows "requests_sent (perform base (get_authorize_url self scopes state rt)) = []
    \<and> perform base (get_authorize_url self scopes state rt)
        = build_request base self ''authorize''
            (query_parameters (fst (get_authorize_url self scopes state rt))) (Some True)
    \<and> is_Build_request (fst (get_authorize_url self scopes state rt))
    \<and> \<not> is_Get_json (fst (get_authorize_url self scopes state rt))
    \<and> is_Get_json (fst (get_products self a b))
    \<and> is_Get_json (fst (get_price_estimate self a b c d))
    \<and> is_Get_json (fst (get_time_estimate self a b c d))
    \<and> is_Get_json (fst (get_promotions self a b c d))
    \<and> is_Get_json (fst (get_access_token self x))
    \<and> is_Get_json (fst (refresh_token self x))
    \<and> is_Get_json (fst (revoke_token self x))
    \<and> length (requests_sent (perform base (get_products self a b))) = 1
    \<and> length (requests_sent (perform base (get_price_estimate self a b c d))) = 1
    \<and> length (requests_sent (perform base (get_time_estimate self a b c d))) = 1
    \<and> length (requests_sent (perform base (get_promotions self a b c d))) = 1
    \<and> length (requests_sent (perform base (get_access_token self x))) = 1
    \<and> length (requests_sent (perform base (refresh_token self x))) = 1
    \<and> length (requests_sent (perform base (revoke_token self x))) = 1"
proof -
  have url: "perform base (get_authorize_url self scopes state rt)
      = build_request base self ''authorize''
          (query_parameters (fst (get_authorize_url self scopes state rt))) (Some True)"
    by (simp add: perform_def get_authorize_url_def)
  have quiet: "requests_sent (perform base (get_authorize_url self scopes state rt)) = []"
    using assms(1) by (simp add: url build_request_no_io_def)
  have tags: "is_Build_request (fst (get_authorize_url self scopes state rt))
      \<and> \<not> is_Get_json (fst (get_authorize_url self scopes state rt))
      \<and> is_Get_json (fst (get_products self a b))
      \<and> is_Get_json (fst (get_price_estimate self a b c d))
      \<and> is_Get_json (fst (get_time_estimate self a b c d))
      \<and> is_Get_json (fst (get_promotions self a b c d))
      \<and> is_Get_json (fst (get_access_token self x))
      \<and> is_Get_json (fst (refresh_token self x))
      \<and> is_Get_json (fst (revoke_token self x))"
    by (simp add: get_products_def get_price_estimate_def get_time_estimate_def
        get_promotions_def get_authorize_url_def get_access_token_def refresh_token_def
        revoke_token_def Let_def)
  have fetch: "length (requests_sent (perform base (get_products self a b))) = 1
      \<and> length (requests_sent (perform base (get_price_estimate self a b c d))) = 1
      \<and> length (requests_sent (perform base (get_time_estimate self a b c d))) = 1
      \<and> length (requests_sent (perform base (get_promotions self a b c d))) = 1
      \<and> length (requests_sent (perform base (get_access_token self x))) = 1
      \<and> length (requests_sent (perform base (refresh_token self x))) = 1
      \<and> length (requests_sent (perform base (revoke_token self x))) = 1"
    using assms(2)
    by (simp add: get_json_one_request_def perform_def get_products_def
        get_price_estimate_def get_time_estimate_def get_promotions_def get_access_token_def
        refresh_token_def revoke_token_def Let_def)
  from quiet url tags fetch show ?thesis
    by simp
qed

text \<open>
  The statement of C8 at a base class whose \<open>get_json\<close> sends one request and whose
  \<open>build_request\<close> sends none, for \<open>get_authorize_url(scopes=['profile'])\<close> and
  \<open>get_products(37, -122)\<close>.
\<close>

theorem get_authorize_url_no_http_call_witness:
  "(let base = \<lparr>get_json = (\<lambda>self e m q a b auth.
                    \<lparr>returned = server_token self, self_after = self,
                     requests_sent = [(m, e)]\<rparr>),
                 build_request = (\<lambda>self p q auth.
                    \<lparr>returned = PStr p, self_after = self, requests_sent = []\<rparr>),
                 api_init = (\<lambda>self a b c d.
                    \<lparr>returned = PNone, self_after = self, requests_sent = []\<rparr>)\<rparr>;
        self = \<lparr>client_id = PStr ''id'' :: int pyval, server_token = PStr ''tok'',
                secret = PStr ''sec'', redirect_uri = PStr ''uri''\<rparr>
    in requests_sent (perform base (get_authorize_url self (Some [''profile'']) PNone None)) = []
       \<and> length (requests_sent (perform base (get_products self (PObj 37) (PObj (-122))))) = 1)"
proof -
  let ?base = "\<lparr>get_json = (\<lambda>(self :: int uber) (e :: string) (m :: string)
                    (q :: int params) (a :: int pyval) (b :: int pyval) (auth :: bool option).
                    \<lparr>returned = server_token self, self_after = self,
                     requests_sent = [(m, e)]\<rparr>),
                 build_request = (\<lambda>self p q auth.
                    \<lparr>returned = PStr p, self_after = self, requests_sent = []\<rparr>),
                 api_init = (\<lambda>self a b c d.
                    \<lparr>returned = PNone, self_after = self, requests_sent = []\<rparr>)\<rparr>"
  let ?self = "\<lparr>client_id = PStr ''id'' :: int pyval, server_token = PStr ''tok'',
                secret = PStr ''sec'', redirect_uri = PStr ''uri''\<rparr>"
  have b: "build_request_no_io ?base"
    by (simp add: build_request_no_io_def)
  have g: "get_json_one_request ?base"
    by (simp add: get_json_one_request_def)
  note inst = get_authorize_url_no_http_call [OF b g, where self = ?self
      and scopes = "Some [''profile'']" and state = PNone and rt = None
      and a = "PObj 37" and b = "PObj (-122)" and c = PNone and d = PNone and x = PNone]
  from inst have
    "requests_sent (perform ?base (get_authorize_url ?self (Some [''profile'']) PNone None)) = []"
    by (elim conjE) assumption
  moreover from inst have
    "length (requests_sent (perform ?base (get_products ?self (PObj 37) (PObj (-122))))) = 1"
    by (elim conjE) assumption
  ultimately show ?thesis
    unfolding Let_def by (rule conjI)
qed

text \<open>
  C9. With \<open>scopes\<close> omitted, the query parameters of \<open>get_authorize_url\<close> still have
  the key \<open>scopes\<close>, bound to the empty string, next to \<open>client_id\<close> (the stored one)
  and \<open>response_type\<close>, which is \<open>code\<close> when that argument is omitted too; these three
  are all the keys.
\<close>

theorem get_authorize_url_default_scopes:
  fixes self :: "('a, 'z) uber_scheme"
  shows "query_parameters (fst (get_authorize_url self None state rt)) ''scopes''
        = Some (PStr '''')
    \<and> query_parameters (fst (get_authorize_url self None state rt)) ''client_id''
        = Some (client_id self)
    \<and> query_parameters (fst (get_authorize_url self None state None)) ''response_type''
        = Some (PStr ''code'')
    \<and> dom (query_parameters (fst (get_authorize_url self None state rt)))
        = {''client_id'', ''response_type'', ''scopes''}"
  by (auto simp: get_authorize_url_def)

text \<open>
  C10. The result of \<open>get_authorize_url\<close> does not depend on \<open>state\<close>: for any two
  values of \<open>state\<close> (\<open>None\<close> included) and the same object, scopes and response type
  the two calls coincide, and so do their results under any base class; the query
  parameters never have a key \<open>state\<close>.
\<close>

theorem get_authorize_url_ignores_state:
  fixes self :: "('a, 'z) uber_scheme"
    and base :: "(('a, 'z) uber_scheme, 'a, 'r) api"
  shows "get_authorize_url self scopes state1 rt = get_authorize_url self scopes state2 rt
    \<and> ''state'' \<notin> dom (query_parameters (fst (get_authorize_url self scopes state1 rt)))
    \<and> dispatch base (snd (get_authorize_url self scopes state1 rt))
          (fst (get_authorize_url self scopes state1 rt))
        = dispatch base (snd (get_authorize_url self scopes state2 rt))
          (fst (get_authorize_url self scopes state2 rt))"
  by (simp add: get_authorize_url_def)

end
